theory Spec2Isabelle
  imports Complex_Main "HOL-Library.Sublist"
begin

section \<open>FormPage: the form state and its two mutation operations\<close>

text \<open>
  The form state is the JavaScript object held by \<^verbatim>\<open>useState\<close> in FormPage.jsx.
  Its keys are strings; a property holds either a string (every value that
  \<^verbatim>\<open>handleChange\<close> stores is \<^verbatim>\<open>e.target.value\<close>) or an array of strings (the
  \<^verbatim>\<open>diagnosis\<close> list). A key the object does not have reads as \<^verbatim>\<open>undefined\<close>,
  which is \<open>None\<close> here. Strings are sequences of characters.
\<close>

datatype fieldValue = Str string | Arr "string list"

type_synonym formData = "string \<rightharpoonup> fieldValue"

datatype js_error = TypeError | SyntaxError | Rejected

text \<open>The argument of \<^verbatim>\<open>useState\<close> (FormPage.jsx, lines 8 to 14).\<close>

definition initialFormData :: formData where
  "initialFormData =
     [''age'' \<mapsto> Str '''',
      ''visits'' \<mapsto> Str '''',
      ''diagnosis'' \<mapsto> Arr [],
      ''glucose'' \<mapsto> Str '''',
      ''aic'' \<mapsto> Str '''']"

text \<open>
  \<^verbatim>\<open>handleChange\<close>: the updater \<^verbatim>\<open>(prev) => ({ ...prev, [name]: value })\<close>, with
  \<open>name\<close> and \<open>value\<close> read from the event target.
\<close>

definition handleChange :: "string \<Rightarrow> string \<Rightarrow> formData \<Rightarrow> formData" where
  "handleChange name val prev = prev(name \<mapsto> Str val)"

text \<open>
  \<^verbatim>\<open>handleDiagnosisChange\<close>: the updater of lines 23 to 34. On an array the three
  branches are those of the source. The other two cases are what JavaScript does
  when \<^verbatim>\<open>prev.diagnosis\<close> is not an array: reading \<^verbatim>\<open>includes\<close> of
  \<^verbatim>\<open>undefined\<close> throws a TypeError; on a string, \<^verbatim>\<open>includes\<close> is the substring
  test, \<^verbatim>\<open>filter\<close> is not a function (TypeError), and the spread
  \<^verbatim>\<open>[...prev.diagnosis, value]\<close> lists the characters of the string.
\<close>

definition handleDiagnosisChange :: "string \<Rightarrow> formData \<Rightarrow> js_error + formData" where
  "handleDiagnosisChange val prev =
     (case prev ''diagnosis'' of
        None \<Rightarrow> Inl TypeError
      | Some (Arr ds) \<Rightarrow>
          if val \<in> set ds then
            Inr (prev(''diagnosis'' \<mapsto> Arr (filter (\<lambda>d. d \<noteq> val) ds)))
          else if length ds < 3 then
            Inr (prev(''diagnosis'' \<mapsto> Arr (ds @ [val])))
          else Inr prev
      | Some (Str s) \<Rightarrow>
          if sublist val s then Inl TypeError
          else if length s < 3 then
            Inr (prev(''diagnosis'' \<mapsto> Arr (map (\<lambda>c. [c]) s @ [val])))
          else Inr prev)"

text \<open>
  A sequence of calls of the toggle, each on the state the previous one returned;
  a call that throws ends the sequence with its error.
\<close>

fun toggles :: "string list \<Rightarrow> formData \<Rightarrow> js_error + formData" where
  "toggles [] s = Inr s"
| "toggles (v # vs) s =
     (case handleDiagnosisChange v s of
        Inl e \<Rightarrow> Inl e
      | Inr s' \<Rightarrow> toggles vs s')"

text \<open>
  \<^verbatim>\<open>handleSubmit\<close> (lines 37 to 41): it suppresses the default submission, logs
  the state, and navigates to \<^verbatim>\<open>/results\<close> with \<^verbatim>\<open>{ state: { formData } }\<close>.
  The record lists these three effects.
\<close>

record submitted =
  defaultPrevented :: bool
  logged :: "string \<times> formData"
  navigateTo :: string
  navigateState :: formData

definition handleSubmit :: "formData \<Rightarrow> submitted" where
  "handleSubmit formData =
     \<lparr> defaultPrevented = True,
       logged = (''Submitted Data:'', formData),
       navigateTo = ''/results'',
       navigateState = formData \<rparr>"

text \<open>
  The inputs that the component renders and the handler each one is bound to
  (lines 46 to 106): three selects and one number input call \<^verbatim>\<open>handleChange\<close>
  with their \<^verbatim>\<open>name\<close> attribute, the seven checkboxes call
  \<^verbatim>\<open>handleDiagnosisChange\<close>.
\<close>

datatype interaction =
    AgeSelect string
  | VisitsInput string
  | DiagnosisCheckbox string
  | GlucoseSelect string
  | A1CSelect string

fun onChange :: "interaction \<Rightarrow> formData \<Rightarrow> js_error + formData" where
  "onChange (AgeSelect v) prev = Inr (handleChange ''age'' v prev)"
| "onChange (VisitsInput v) prev = Inr (handleChange ''visits'' v prev)"
| "onChange (DiagnosisCheckbox v) prev = handleDiagnosisChange v prev"
| "onChange (GlucoseSelect v) prev = Inr (handleChange ''glucose'' v prev)"
| "onChange (A1CSelect v) prev = Inr (handleChange ''a1c'' v prev)"

fun interactions :: "interaction list \<Rightarrow> formData \<Rightarrow> js_error + formData" where
  "interactions [] s = Inr s"
| "interactions (i # is) s =
     (case onChange i s of
        Inl e \<Rightarrow> Inl e
      | Inr s' \<Rightarrow> interactions is s')"

text \<open>The labels of the seven checkboxes (lines 68 to 76).\<close>

definition diagnosisOptions :: "string list" where
  "diagnosisOptions =
     [''Circulatory'', ''Diabetes'', ''Digestive'', ''Injury'',
      ''Musculoskeletal'', ''Respiratory'', ''Other'']"

section \<open>JavaScript numbers and the built-in conversions the code calls\<close>

text \<open>
  A JavaScript number is a double: \<^verbatim>\<open>NaN\<close>, an infinity, or a finite value with
  a sign (there are two zeros). \<open>Num s m\<close> has sign \<open>s\<close> and magnitude \<open>m\<close>, and
  every \<open>Num\<close> that a conversion of this section returns is made by \<open>toDouble\<close>,
  so its magnitude is the exact value of a double.

  A text is the list of its code units, and the characters of HOL are the code
  units below 256.
\<close>

datatype sign = Plus | Minus

datatype jsnumber = NaN | Infinity sign | Num sign rat

text \<open>
  The double of a positive fraction \<open>a / b\<close> (\<open>b\<close> is not 0): the nearest one,
  the one with the even significand when two are as near. \<open>floorLog2 a b\<close> is the
  binary exponent of the fraction, the \<open>d\<close> with \<open>2 ^ d \<le> a / b < 2 ^ (d + 1)\<close>. A
  double has 53 significant bits and no exponent under \<open>- 1022\<close>, so the last
  place that is kept is \<open>2 ^ e\<close> with \<open>e\<close> as below, and the fraction is rounded
  to a multiple \<open>n\<close> of it. What rounds to \<open>2 ^ 1024\<close> or more is an infinity; what
  rounds to 0 keeps the sign.
\<close>

fun bitLength :: "nat \<Rightarrow> nat" where
  "bitLength n = (if n = 0 then 0 else Suc (bitLength (n div 2)))"

declare bitLength.simps [simp del]

definition floorLog2 :: "nat \<Rightarrow> nat \<Rightarrow> int" where
  "floorLog2 a b =
     (let d = int (bitLength a) - int (bitLength b)
      in if (if 0 \<le> d then 2 ^ nat d * b \<le> a else b \<le> 2 ^ nat (- d) * a) then d
         else d - 1)"

definition roundHalfEven :: "nat \<Rightarrow> nat \<Rightarrow> nat" where
  "roundHalfEven num den =
     (let n = num div den; r = num mod den
      in if 2 * r < den then n
         else if den < 2 * r then n + 1
         else if even n then n
         else n + 1)"

definition toDouble :: "sign \<Rightarrow> nat \<Rightarrow> nat \<Rightarrow> jsnumber" where
  "toDouble sg a b =
     (if a = 0 then Num sg 0
      else
        (let e = max (floorLog2 a b) (- 1022) - 52;
             n = (if 0 \<le> e then roundHalfEven a (b * 2 ^ nat e)
                  else roundHalfEven (a * 2 ^ nat (- e)) b)
         in if 0 \<le> e \<and> 2 ^ 1024 \<le> n * 2 ^ nat e then Infinity sg
            else if 0 \<le> e then Num sg (of_nat (n * 2 ^ nat e))
            else Num sg (of_nat n / 2 ^ nat (- e))))"

text \<open>The double of \<open>c\<close> times \<open>10 ^ x\<close>, the value of a decimal numeral.\<close>

definition decimalToDouble :: "sign \<Rightarrow> nat \<Rightarrow> int \<Rightarrow> jsnumber" where
  "decimalToDouble sg c x =
     (if 0 \<le> x then toDouble sg (c * 10 ^ nat x) 1
      else toDouble sg c (10 ^ nat (- x)))"

text \<open>
  White space and line terminators of ECMAScript, by code point: the controls
  9 to 13, the space, the no-break space, the other space separators of Unicode,
  the line and paragraph separators and the byte order mark.
\<close>

definition whiteSpaceCodes :: "nat list" where
  "whiteSpaceCodes =
     [9, 10, 11, 12, 13, 32, 160, 5760,
      8192, 8193, 8194, 8195, 8196, 8197, 8198, 8199, 8200, 8201, 8202,
      8232, 8233, 8239, 8287, 12288, 65279]"

definition isWhiteSpace :: "char \<Rightarrow> bool" where
  "isWhiteSpace c = ((of_char c :: nat) \<in> set whiteSpaceCodes)"

definition trimStart :: "string \<Rightarrow> string" where
  "trimStart s = dropWhile isWhiteSpace s"

definition trim :: "string \<Rightarrow> string" where
  "trim s = rev (trimStart (rev (trimStart s)))"

text \<open>The value of a digit: \<open>0\<close> to \<open>9\<close>, then the letters of either case from 10.\<close>

definition digitValue :: "char \<Rightarrow> nat option" where
  "digitValue c =
     (let n = (of_char c :: nat) in
      if 48 \<le> n \<and> n \<le> 57 then Some (n - 48)
      else if 97 \<le> n \<and> n \<le> 122 then Some (n - 87)
      else if 65 \<le> n \<and> n \<le> 90 then Some (n - 55)
      else None)"

definition isRadixDigit :: "nat \<Rightarrow> char \<Rightarrow> bool" where
  "isRadixDigit R c = (case digitValue c of None \<Rightarrow> False | Some d \<Rightarrow> d < R)"

definition radixValue :: "nat \<Rightarrow> string \<Rightarrow> nat" where
  "radixValue R ds =
     foldl (\<lambda>n c. n * R + (case digitValue c of None \<Rightarrow> 0 | Some d \<Rightarrow> d)) 0 ds"

text \<open>
  \<^verbatim>\<open>parseInt(string, radix)\<close>: leading white space is skipped, a sign is read,
  a \<^verbatim>\<open>0x\<close> prefix is removed when the radix is 0 or 16, and the longest run of
  digits of the radix is the value, as a double; no digit at all gives \<^verbatim>\<open>NaN\<close>,
  and so does a radix that is neither 0 (which stands for 10) nor from 2 to 36.
  The double is the one nearest the integer that the digits denote. (For more
  than 20 significant digits in base 10, and in a base that is no power of 2,
  ECMAScript lets an implementation approximate that integer first.)
\<close>

definition parseInt :: "string \<Rightarrow> nat \<Rightarrow> jsnumber" where
  "parseInt string radix =
     (let S = trimStart string;
          sg = (case S of [] \<Rightarrow> Plus | c # r \<Rightarrow> if c = CHR ''-'' then Minus else Plus);
          S1 = (case S of [] \<Rightarrow> S
                | c # r \<Rightarrow> if c = CHR ''+'' \<or> c = CHR ''-'' then r else S);
          hex = ((radix = 0 \<or> radix = 16) \<and> (prefix ''0x'' S1 \<or> prefix ''0X'' S1));
          S2 = (if hex then drop 2 S1 else S1);
          R = (if hex then 16 else if radix = 0 then 10 else radix);
          Z = takeWhile (isRadixDigit R) S2
      in if R < 2 \<or> 36 < R then NaN
         else if Z = [] then NaN
         else toDouble sg (radixValue R Z) 1)"

text \<open>
  The longest prefix that is a decimal literal of ECMAScript's
  \<^verbatim>\<open>StrDecimalLiteral\<close>: a sign, then \<^verbatim>\<open>Infinity\<close> or digits with an optional
  fraction and an optional exponent. The result is the value, as a double, and
  the text left over, or \<open>None\<close> when no prefix is a literal. (For more than 20
  significant digits ECMAScript lets an implementation round the decimal value
  at the 20th digit first; the double here is the one nearest the value of all
  the digits.)
\<close>

definition exponentPart :: "string \<Rightarrow> int \<times> string" where
  "exponentPart s =
     (case s of
        [] \<Rightarrow> (0, s)
      | c # r \<Rightarrow>
          if c = CHR ''e'' \<or> c = CHR ''E'' then
            (let neg = (case r of [] \<Rightarrow> False | d # _ \<Rightarrow> d = CHR ''-'');
                 r1 = (case r of [] \<Rightarrow> r
                       | d # r' \<Rightarrow> if d = CHR ''+'' \<or> d = CHR ''-'' then r' else r);
                 ds = takeWhile (isRadixDigit 10) r1
             in if ds = [] then (0, s)
                else (if neg then - int (radixValue 10 ds) else int (radixValue 10 ds),
                      dropWhile (isRadixDigit 10) r1))
          else (0, s))"

definition strUnsignedDecimalLiteral :: "sign \<Rightarrow> string \<Rightarrow> (jsnumber \<times> string) option" where
  "strUnsignedDecimalLiteral sg s =
     (if prefix ''Infinity'' s then Some (Infinity sg, drop 8 s)
      else
        (let ip = takeWhile (isRadixDigit 10) s;
             r1 = dropWhile (isRadixDigit 10) s;
             dot = (case r1 of [] \<Rightarrow> False | c # _ \<Rightarrow> c = CHR ''.'');
             fp = (if dot then takeWhile (isRadixDigit 10) (tl r1) else []);
             r2 = (if dot then dropWhile (isRadixDigit 10) (tl r1) else r1)
         in if ip = [] \<and> fp = [] then None
            else (case exponentPart r2 of
                    (e, r3) \<Rightarrow>
                      Some (decimalToDouble sg (radixValue 10 (ip @ fp))
                              (e - int (length fp)), r3))))"

definition strDecimalLiteral :: "string \<Rightarrow> (jsnumber \<times> string) option" where
  "strDecimalLiteral s =
     (case s of
        [] \<Rightarrow> None
      | c # r \<Rightarrow>
          if c = CHR ''-'' then strUnsignedDecimalLiteral Minus r
          else if c = CHR ''+'' then strUnsignedDecimalLiteral Plus r
          else strUnsignedDecimalLiteral Plus s)"

text \<open>
  \<^verbatim>\<open>parseFloat(string)\<close>: leading white space is skipped and the longest prefix
  that is a decimal literal is the value; \<^verbatim>\<open>NaN\<close> when there is none.
\<close>

definition parseFloat :: "string \<Rightarrow> jsnumber" where
  "parseFloat string =
     (case strDecimalLiteral (trimStart string) of
        None \<Rightarrow> NaN
      | Some (n, rest) \<Rightarrow> n)"

text \<open>
  \<^verbatim>\<open>Number(string)\<close>: white space is trimmed at both ends; the empty text is
  \<open>+0\<close>; otherwise the whole text must be a binary, octal or hexadecimal integer
  literal (\<^verbatim>\<open>0b\<close>, \<^verbatim>\<open>0o\<close>, \<^verbatim>\<open>0x\<close>) or a decimal literal, and is \<^verbatim>\<open>NaN\<close> if not.
\<close>

definition nonDecimalIntegerLiteral :: "string \<Rightarrow> nat option" where
  "nonDecimalIntegerLiteral s =
     (case s of
        z # x # ds \<Rightarrow>
          (let R = (if x = CHR ''x'' \<or> x = CHR ''X'' then 16
                    else if x = CHR ''o'' \<or> x = CHR ''O'' then 8
                    else if x = CHR ''b'' \<or> x = CHR ''B'' then 2
                    else (0::nat))
           in if z = CHR ''0'' \<and> 0 < R \<and> ds \<noteq> [] \<and> list_all (isRadixDigit R) ds
              then Some (radixValue R ds) else None)
      | _ \<Rightarrow> None)"

definition Number :: "string \<Rightarrow> jsnumber" where
  "Number str =
     (let text = trim str in
      if text = [] then Num Plus 0
      else case nonDecimalIntegerLiteral text of
             Some n \<Rightarrow> toDouble Plus n 1
           | None \<Rightarrow>
               (case strDecimalLiteral text of
                  None \<Rightarrow> NaN
                | Some (n, rest) \<Rightarrow> if rest = [] then n else NaN))"

section \<open>The request body for \<^verbatim>\<open>/submit\<close>\<close>

text \<open>
  The object literal \<^verbatim>\<open>body\<close> of the submission snippet. Its five free variables
  are the parameters: the form's strings and the array of selected diagnoses.
\<close>

record requestBody =
  age :: string
  total_visits :: jsnumber
  diagnoses :: "string list"
  glucose_test :: jsnumber
  a1c_test :: jsnumber

definition body :: "string \<Rightarrow> string \<Rightarrow> string list \<Rightarrow> string \<Rightarrow> string \<Rightarrow> requestBody" where
  "body selectedAge totalVisits selectedDiagnosesArray glucoseValue a1cValue =
     \<lparr> age = selectedAge,
       total_visits = parseInt totalVisits 10,
       diagnoses = selectedDiagnosesArray,
       glucose_test = parseFloat glucoseValue,
       a1c_test = parseFloat a1cValue \<rparr>"

section \<open>Predict: the free-text prediction view\<close>

text \<open>
  The values of JavaScript that a JSON text parses to, and \<^verbatim>\<open>undefined\<close>. An
  object is the list of its properties, each name once.
\<close>

datatype jsvalue =
    JUndefined
  | JNull
  | JBool bool
  | JNum jsnumber
  | JStr string
  | JArr "jsvalue list"
  | JObj "(string \<times> jsvalue) list"

text \<open>
  \<^verbatim>\<open>s.split(",")\<close>: the pieces of \<open>s\<close> between the separators, empty pieces
  included; a text without separator is its only piece.
\<close>

fun split :: "string \<Rightarrow> char \<Rightarrow> string list" where
  "split [] sep = [[]]"
| "split (c # cs) sep =
     (if c = sep then [] # split cs sep
      else (case split cs sep of
              [] \<Rightarrow> [[c]]
            | p # ps \<Rightarrow> (c # p) # ps))"

text \<open>
  \<^verbatim>\<open>data.prediction\<close>: reading a property of \<^verbatim>\<open>null\<close> or \<^verbatim>\<open>undefined\<close> throws a
  TypeError; an object gives the property, or \<^verbatim>\<open>undefined\<close> when it has none of
  that name, as every other value does.
\<close>

fun prediction :: "jsvalue \<Rightarrow> js_error + jsvalue" where
  "prediction JUndefined = Inl TypeError"
| "prediction JNull = Inl TypeError"
| "prediction (JObj kvs) =
     (case map_of kvs ''prediction'' of
        None \<Rightarrow> Inr JUndefined
      | Some v \<Rightarrow> Inr v)"
| "prediction v = Inr JUndefined"

text \<open>
  The two state variables of the component, the request it passes to
  \<^verbatim>\<open>fetch\<close> (\<open>req_body\<close> is the JSON text, as the value it denotes), and a
  response, of which the handler uses \<^verbatim>\<open>response.json()\<close> only: the parsed
  value, or the error the promise rejects with.
\<close>

record predictState =
  features :: string
  result :: jsvalue

record request =
  req_url :: string
  req_method :: string
  req_headers :: "(string \<times> string) list"
  req_body :: jsvalue

record response =
  json :: "js_error + jsvalue"


text \<open>
  \<^verbatim>\<open>JSON.stringify\<close>. The JSON text it returns is given by the value the text
  denotes. JSON has no \<^verbatim>\<open>NaN\<close>, no infinity and no negative zero: the first two
  are written \<^verbatim>\<open>null\<close>, the last \<open>0\<close>. An element of an array that has no JSON
  text is written \<^verbatim>\<open>null\<close>, and such a property of an object is left out.
\<close>

fun JSON_stringify :: "jsvalue \<Rightarrow> jsvalue" where
  "JSON_stringify (JNum n) =
     (case n of
        NaN \<Rightarrow> JNull
      | Infinity s \<Rightarrow> JNull
      | Num s m \<Rightarrow> if m = 0 then JNum (Num Plus 0) else JNum n)"
| "JSON_stringify (JArr xs) =
     JArr (map (\<lambda>x. case JSON_stringify x of JUndefined \<Rightarrow> JNull | y \<Rightarrow> y) xs)"
| "JSON_stringify (JObj kvs) =
     JObj (filter (\<lambda>kv. snd kv \<noteq> JUndefined)
            (map (\<lambda>kv. (fst kv, JSON_stringify (snd kv))) kvs))"
| "JSON_stringify v = v"

text \<open>
  The arguments of \<^verbatim>\<open>fetch\<close> (Predict.js, lines 11 to 15), for the text of the
  input field.
\<close>

definition predictRequest :: "string \<Rightarrow> request" where
  "predictRequest txt =
     \<lparr> req_url = ''http://127.0.0.1:5000/predict'',
       req_method = ''POST'',
       req_headers = [(''Content-Type'', ''application/json'')],
       req_body = JSON_stringify (JObj [(''features'',
                    JArr (map (\<lambda>p. JNum (Number p)) (split txt CHR '','')))]) \<rparr>"

text \<open>
  \<^verbatim>\<open>handleSubmit\<close> of Predict.js (lines 8 to 19). The network is the parameter
  \<open>fetch\<close>: a rejected promise is \<open>Inl\<close>. An \<^verbatim>\<open>await\<close> on a rejected promise
  throws out of the handler, whose own promise rejects with the same error
  (\<open>outcome\<close>); nothing after it runs. \<open>sent\<close> is the request that was passed to
  \<^verbatim>\<open>fetch\<close>, \<open>after\<close> the state of the component when the handler has ended.
\<close>

record handled =
  prevented :: bool
  sent :: request
  outcome :: "js_error + unit"
  after :: predictState

definition Predict_handleSubmit ::
    "(request \<Rightarrow> js_error + response) \<Rightarrow> predictState \<Rightarrow> handled" where
  "Predict_handleSubmit fetch st =
     (let req = predictRequest (features st);
          thrown = (\<lambda>e. \<lparr> prevented = True, sent = req, outcome = Inl e, after = st \<rparr>)
      in case fetch req of
           Inl e \<Rightarrow> thrown e
         | Inr response \<Rightarrow>
             (case json response of
                Inl e \<Rightarrow> thrown e
              | Inr data \<Rightarrow>
                  (case prediction data of
                     Inl e \<Rightarrow> thrown e
                   | Inr p \<Rightarrow>
                       \<lparr> prevented = True, sent = req, outcome = Inr (),
                         after = st\<lparr> result := p \<rparr> \<rparr>)))"






section \<open>The diagnosis list of a form state\<close>

lemma handleDiagnosisChange_Arr:
  assumes "prev ''diagnosis'' = Some (Arr ds)"
  shows "handleDiagnosisChange v prev =
           Inr (prev(''diagnosis'' \<mapsto> Arr
             (if v \<in> set ds then filter (\<lambda>d. d \<noteq> v) ds
              else if length ds < 3 then ds @ [v] else ds)))"
proof -
  have "prev(''diagnosis'' \<mapsto> Arr ds) = prev"
    using assms by (simp add: map_upd_triv)
  with assms show ?thesis
    by (simp add: handleDiagnosisChange_def)
qed

lemma initial_diagnosis: "initialFormData ''diagnosis'' = Some (Arr [])"
  by (simp add: initialFormData_def)

lemma toggles_Arr:
  assumes "prev ''diagnosis'' = Some (Arr ds)" and "length ds \<le> 3"
  shows "\<exists>s ds'. toggles vs prev = Inr s
           \<and> s ''diagnosis'' = Some (Arr ds') \<and> length ds' \<le> 3"
  using assms
proof (induction vs arbitrary: prev ds)
  case Nil
  then show ?case by simp
next
  case (Cons v vs)
  let ?ds = "if v \<in> set ds then filter (\<lambda>d. d \<noteq> v) ds
             else if length ds < 3 then ds @ [v] else ds"
  let ?s = "prev(''diagnosis'' \<mapsto> Arr ?ds)"
  have step: "handleDiagnosisChange v prev = Inr ?s"
    using Cons.prems(1) by (rule handleDiagnosisChange_Arr)
  have "length (filter (\<lambda>d. d \<noteq> v) ds) \<le> length ds"
    by (rule length_filter_le)
  with Cons.prems(2) have "length (filter (\<lambda>d. d \<noteq> v) ds) \<le> 3"
    by linarith
  with Cons.prems(2) have len: "length ?ds \<le> 3"
    by simp
  have "?s ''diagnosis'' = Some (Arr ?ds)"
    by simp
  with len have "\<exists>s ds'. toggles vs ?s = Inr s
      \<and> s ''diagnosis'' = Some (Arr ds') \<and> length ds' \<le> 3"
    by (rule Cons.IH [of ?s ?ds, rotated])
  with step show ?case
    by simp
qed

lemma filter_other_count:
  "d \<noteq> v \<Longrightarrow> count_list (filter (\<lambda>d. d \<noteq> v) ds) d = count_list ds d"
  by (induction ds) auto

text \<open>
  C1. From the initial state, whatever sequence of values is toggled, every call
  returns and the diagnosis list that results has at most 3 elements. And in any
  state whose diagnosis list holds \<open>v\<close>, however long that list is, the toggle
  of \<open>v\<close> returns the state with \<open>v\<close> filtered out: \<open>v\<close> is gone and the list is
  strictly shorter.
\<close>

theorem diagnosis_length_at_most_three:
  "(\<exists>s ds. toggles vs initialFormData = Inr s
            \<and> s ''diagnosis'' = Some (Arr ds) \<and> length ds \<le> 3)
   \<and> (prev ''diagnosis'' = Some (Arr ds') \<and> v \<in> set ds' \<longrightarrow>
        handleDiagnosisChange v prev
          = Inr (prev(''diagnosis'' \<mapsto> Arr (filter (\<lambda>d. d \<noteq> v) ds')))
        \<and> v \<notin> set (filter (\<lambda>d. d \<noteq> v) ds')
        \<and> length (filter (\<lambda>d. d \<noteq> v) ds') < length ds')"
proof (intro conjI impI)
  show "\<exists>s ds. toggles vs initialFormData = Inr s
            \<and> s ''diagnosis'' = Some (Arr ds) \<and> length ds \<le> 3"
    using toggles_Arr [of initialFormData "[]" vs] initial_diagnosis by simp
next
  assume h: "prev ''diagnosis'' = Some (Arr ds') \<and> v \<in> set ds'"
  then show "handleDiagnosisChange v prev
          = Inr (prev(''diagnosis'' \<mapsto> Arr (filter (\<lambda>d. d \<noteq> v) ds')))"
    by (simp add: handleDiagnosisChange_Arr)
  show "v \<notin> set (filter (\<lambda>d. d \<noteq> v) ds')"
    by simp
  from h have "v \<in> set ds'"
    by simp
  then show "length (filter (\<lambda>d. d \<noteq> v) ds') < length ds'"
    by (rule length_filter_less) simp
qed

text \<open>
  The sequence of the specification's example, and a removal from a list of four.
\<close>

theorem diagnosis_length_at_most_three_witness:
  "(\<exists>s ds. toggles [''Diabetes'', ''Injury'', ''Other'', ''Circulatory'', ''Diabetes'']
              initialFormData = Inr s
            \<and> s ''diagnosis'' = Some (Arr ds) \<and> length ds \<le> 3)
   \<and> [''diagnosis'' \<mapsto> Arr [''a'', ''b'', ''c'', ''d'']] ''diagnosis''
        = Some (Arr [''a'', ''b'', ''c'', ''d''])
   \<and> ''b'' \<in> set [''a'', ''b'', ''c'', ''d'']
   \<and> handleDiagnosisChange ''b'' [''diagnosis'' \<mapsto> Arr [''a'', ''b'', ''c'', ''d'']]
        = Inr [''diagnosis'' \<mapsto> Arr [''a'', ''c'', ''d'']]"
  using diagnosis_length_at_most_three
    [of "[''Diabetes'', ''Injury'', ''Other'', ''Circulatory'', ''Diabetes'']"
        "[''diagnosis'' \<mapsto> Arr [''a'', ''b'', ''c'', ''d'']]"
        "[''a'', ''b'', ''c'', ''d'']" "''b''"]
  by simp

text \<open>
  C4. In any state whose diagnosis list \<open>ds\<close> holds \<open>v\<close>, the toggle of \<open>v\<close>
  changes the \<^verbatim>\<open>diagnosis\<close> property only, and its new list is \<open>ds\<close> without the
  occurrences of \<open>v\<close>: a subsequence of \<open>ds\<close> (the order is kept) that does not
  hold \<open>v\<close> and holds every other value as many times as \<open>ds\<close> does.
\<close>

theorem toggle_selected_removes_it:
  assumes "prev ''diagnosis'' = Some (Arr ds)" and "v \<in> set ds"
  shows "\<exists>ds'. handleDiagnosisChange v prev = Inr (prev(''diagnosis'' \<mapsto> Arr ds'))
           \<and> ds' = filter (\<lambda>d. d \<noteq> v) ds
           \<and> subseq ds' ds
           \<and> v \<notin> set ds'
           \<and> (\<forall>d. d \<noteq> v \<longrightarrow> count_list ds' d = count_list ds d)"
  using assms by (simp add: handleDiagnosisChange_Arr filter_other_count)

theorem toggle_selected_removes_it_witness:
  "(initialFormData(''diagnosis'' \<mapsto> Arr [''Diabetes'', ''Injury'', ''Other''])) ''diagnosis''
     = Some (Arr [''Diabetes'', ''Injury'', ''Other''])
   \<and> ''Diabetes'' \<in> set [''Diabetes'', ''Injury'', ''Other'']
   \<and> handleDiagnosisChange ''Diabetes''
       (initialFormData(''diagnosis'' \<mapsto> Arr [''Diabetes'', ''Injury'', ''Other'']))
     = Inr (initialFormData(''diagnosis'' \<mapsto> Arr [''Injury'', ''Other'']))"
  using toggle_selected_removes_it
    [of "initialFormData(''diagnosis'' \<mapsto> Arr [''Diabetes'', ''Injury'', ''Other''])"
        "[''Diabetes'', ''Injury'', ''Other'']" "''Diabetes''"]
  by simp

text \<open>
  C5. In any state whose diagnosis list \<open>ds\<close> does not hold \<open>v\<close> and has fewer
  than 3 elements, the toggle of \<open>v\<close> changes the \<^verbatim>\<open>diagnosis\<close> property only,
  and its new list is \<open>ds\<close> with \<open>v\<close> appended at the end.
\<close>

theorem toggle_unselected_appends:
  assumes "prev ''diagnosis'' = Some (Arr ds)" and "v \<notin> set ds" and "length ds < 3"
  shows "handleDiagnosisChange v prev = Inr (prev(''diagnosis'' \<mapsto> Arr (ds @ [v])))"
  using assms by (simp add: handleDiagnosisChange_Arr)

theorem toggle_unselected_appends_witness:
  "(initialFormData(''diagnosis'' \<mapsto> Arr [''Diabetes'', ''Injury''])) ''diagnosis''
     = Some (Arr [''Diabetes'', ''Injury''])
   \<and> ''Other'' \<notin> set [''Diabetes'', ''Injury'']
   \<and> length [''Diabetes'', ''Injury''] < 3
   \<and> handleDiagnosisChange ''Other''
       (initialFormData(''diagnosis'' \<mapsto> Arr [''Diabetes'', ''Injury'']))
     = Inr (initialFormData(''diagnosis'' \<mapsto> Arr [''Diabetes'', ''Injury'', ''Other'']))"
  using toggle_unselected_appends
    [of "initialFormData(''diagnosis'' \<mapsto> Arr [''Diabetes'', ''Injury''])"
        "[''Diabetes'', ''Injury'']" "''Other''"]
  by simp

lemma toggles_distinct_within:
  assumes "prev ''diagnosis'' = Some (Arr ds)" and "distinct ds"
    and "set ds \<subseteq> A" and "set vs \<subseteq> A"
  shows "\<exists>s ds'. toggles vs prev = Inr s
           \<and> s ''diagnosis'' = Some (Arr ds') \<and> distinct ds' \<and> set ds' \<subseteq> A"
  using assms
proof (induction vs arbitrary: prev ds)
  case Nil
  then show ?case by simp
next
  case (Cons v vs)
  let ?ds = "if v \<in> set ds then filter (\<lambda>d. d \<noteq> v) ds
             else if length ds < 3 then ds @ [v] else ds"
  let ?s = "prev(''diagnosis'' \<mapsto> Arr ?ds)"
  have step: "handleDiagnosisChange v prev = Inr ?s"
    using Cons.prems(1) by (rule handleDiagnosisChange_Arr)
  have dist: "distinct ?ds"
    using Cons.prems(2) by simp
  have "v \<in> A"
    using Cons.prems(4) by simp
  with Cons.prems(3) have sub: "set ?ds \<subseteq> A"
    by auto
  have rest: "set vs \<subseteq> A"
    using Cons.prems(4) by simp
  have "?s ''diagnosis'' = Some (Arr ?ds)"
    by simp
  from this dist sub rest
  have "\<exists>s ds'. toggles vs ?s = Inr s
      \<and> s ''diagnosis'' = Some (Arr ds') \<and> distinct ds' \<and> set ds' \<subseteq> A"
    by (rule Cons.IH)
  with step show ?case
    by simp
qed

text \<open>
  C10. From the initial state, whatever sequence of labels of the seven
  checkboxes is toggled, every call returns, and the diagnosis list that results
  has no value twice and holds labels of the seven checkboxes only.
\<close>

theorem diagnosis_distinct_options:
  assumes "set vs \<subseteq> set diagnosisOptions"
  shows "\<exists>s ds. toggles vs initialFormData = Inr s
           \<and> s ''diagnosis'' = Some (Arr ds)
           \<and> distinct ds \<and> set ds \<subseteq> set diagnosisOptions
           \<and> length diagnosisOptions = 7"
proof -
  have "length diagnosisOptions = 7"
    by (simp add: diagnosisOptions_def)
  with toggles_distinct_within [of initialFormData "[]" "set diagnosisOptions" vs]
    initial_diagnosis assms
  show ?thesis
    by simp
qed

theorem diagnosis_distinct_options_witness:
  "set [''Other'', ''Injury'', ''Other'', ''Diabetes'', ''Digestive'', ''Respiratory'']
     \<subseteq> set diagnosisOptions
   \<and> (\<exists>s ds. toggles [''Other'', ''Injury'', ''Other'', ''Diabetes'', ''Digestive'',
                       ''Respiratory''] initialFormData = Inr s
          \<and> s ''diagnosis'' = Some (Arr ds)
          \<and> distinct ds \<and> set ds \<subseteq> set diagnosisOptions
          \<and> length diagnosisOptions = 7)"
proof -
  have h: "set [''Other'', ''Injury'', ''Other'', ''Diabetes'', ''Digestive'', ''Respiratory'']
     \<subseteq> set diagnosisOptions"
    by (simp add: diagnosisOptions_def)
  from h diagnosis_distinct_options [OF h] show ?thesis
    by (rule conjI)
qed

section \<open>The \<^verbatim>\<open>aic\<close> property and the navigation payload\<close>

lemma onChange_keeps:
  assumes "prev ''diagnosis'' = Some (Arr ds)"
  shows "\<exists>s ds'. onChange i prev = Inr s
           \<and> s ''diagnosis'' = Some (Arr ds') \<and> s ''aic'' = prev ''aic''"
proof (cases i)
  case (DiagnosisCheckbox v)
  with assms show ?thesis
    by (simp add: handleDiagnosisChange_Arr)
qed (use assms in \<open>simp_all add: handleChange_def\<close>)

lemma interactions_keep:
  assumes "prev ''diagnosis'' = Some (Arr ds)"
  shows "\<exists>s ds'. interactions xs prev = Inr s
           \<and> s ''diagnosis'' = Some (Arr ds') \<and> s ''aic'' = prev ''aic''"
  using assms
proof (induction xs arbitrary: prev ds)
  case Nil
  then show ?case by simp
next
  case (Cons i xs)
  from onChange_keeps [of prev ds i] Cons.prems
  obtain s ds' where s: "onChange i prev = Inr s" "s ''diagnosis'' = Some (Arr ds')"
    "s ''aic'' = prev ''aic''"
    by blast
  from Cons.IH [of s ds'] s show ?case
    by simp
qed

lemma interactions_append:
  "interactions (xs @ ys) s =
     (case interactions xs s of Inl e \<Rightarrow> Inl e | Inr s' \<Rightarrow> interactions ys s')"
  by (induction xs arbitrary: s) (simp_all split: sum.splits)

text \<open>
  C3. The initial state has the key \<^verbatim>\<open>aic\<close> and no key \<^verbatim>\<open>a1c\<close>. After any
  sequence \<open>xs\<close> of interactions with the inputs of the form, the state has
  \<^verbatim>\<open>aic\<close> equal to the empty string, and so has the payload of a submit. A
  selection \<open>v\<close> in the A1C select after \<open>xs\<close> is stored under \<^verbatim>\<open>a1c\<close>, and
  \<^verbatim>\<open>aic\<close> is the empty string still, in the state and in the payload.
\<close>

theorem aic_stays_empty:
  "initialFormData ''aic'' = Some (Str '''') \<and> initialFormData ''a1c'' = None
   \<and> (\<exists>s. interactions xs initialFormData = Inr s
      \<and> s ''aic'' = Some (Str '''')
      \<and> navigateState (handleSubmit s) ''aic'' = Some (Str '''')
      \<and> interactions (xs @ [A1CSelect v]) initialFormData = Inr (s(''a1c'' \<mapsto> Str v))
      \<and> (s(''a1c'' \<mapsto> Str v)) ''aic'' = Some (Str '''')
      \<and> navigateState (handleSubmit (s(''a1c'' \<mapsto> Str v))) ''aic'' = Some (Str ''''))"
proof -
  from interactions_keep [of initialFormData "[]" xs] initial_diagnosis
  obtain s where s: "interactions xs initialFormData = Inr s"
    "s ''aic'' = initialFormData ''aic''"
    by blast
  have init: "initialFormData ''aic'' = Some (Str '''')" "initialFormData ''a1c'' = None"
    by (simp_all add: initialFormData_def)
  with s have "interactions xs initialFormData = Inr s
      \<and> s ''aic'' = Some (Str '''')
      \<and> navigateState (handleSubmit s) ''aic'' = Some (Str '''')
      \<and> interactions (xs @ [A1CSelect v]) initialFormData = Inr (s(''a1c'' \<mapsto> Str v))
      \<and> (s(''a1c'' \<mapsto> Str v)) ''aic'' = Some (Str '''')
      \<and> navigateState (handleSubmit (s(''a1c'' \<mapsto> Str v))) ''aic'' = Some (Str '''')"
    by (simp add: interactions_append handleChange_def handleSubmit_def)
  with init show ?thesis
    by blast
qed

text \<open>
  C6. With no interaction the state is the initial one, and its submit
  navigates to \<^verbatim>\<open>/results\<close> with the initial object as payload. For every state
  the submit navigates, and the payload is that state.
\<close>

theorem submit_passes_state_through:
  "interactions [] initialFormData = Inr initialFormData
   \<and> navigateTo (handleSubmit initialFormData) = ''/results''
   \<and> navigateState (handleSubmit initialFormData)
       = [''age'' \<mapsto> Str '''', ''visits'' \<mapsto> Str '''', ''diagnosis'' \<mapsto> Arr [],
          ''glucose'' \<mapsto> Str '''', ''aic'' \<mapsto> Str '''']
   \<and> navigateTo (handleSubmit formData) = ''/results''
   \<and> navigateState (handleSubmit formData) = formData"
  by (simp add: handleSubmit_def initialFormData_def)

section \<open>Doubles and the conversions of numerals\<close>

lemma bitLength_0: "bitLength 0 = 0"
  by (simp add: bitLength.simps)

lemma bitLength_Suc_0: "bitLength (Suc 0) = Suc 0"
  by (simp add: bitLength.simps)

lemma bitLength_1: "bitLength 1 = 1"
  by (simp add: bitLength.simps)

lemma bitLength_One: "bitLength (numeral Num.One) = 1"
  by (simp add: bitLength.simps)

lemma bitLength_Bit0: "bitLength (numeral (Num.Bit0 k)) = Suc (bitLength (numeral k))"
  by (subst bitLength.simps) (simp add: numeral_Bit0_div_2)

lemma bitLength_Bit1: "bitLength (numeral (Num.Bit1 k)) = Suc (bitLength (numeral k))"
  by (subst bitLength.simps) (simp add: numeral_Bit1_div_2)

lemmas bitLength_numeral =
  bitLength_0 bitLength_Suc_0 bitLength_1 bitLength_One bitLength_Bit0 bitLength_Bit1

lemma bitLength_bounds: "0 < a \<Longrightarrow> 2 ^ (bitLength a - 1) \<le> a \<and> a < 2 ^ bitLength a"
proof (induction a rule: bitLength.induct)
  case (1 n)
  show ?case
  proof (cases "n div 2 = 0")
    case True
    with "1.prems" have "n = 1"
      by (simp add: div_eq_0_iff) 
    then show ?thesis
      by (simp add: bitLength_Suc_0)
  next
    case False
    then have pos: "0 < n div 2"
      by simp
    from "1.prems" have n0: "n \<noteq> 0"
      by simp
    from "1.IH" [OF n0 pos]
    have ih: "2 ^ (bitLength (n div 2) - 1) \<le> n div 2" "n div 2 < 2 ^ bitLength (n div 2)"
      by simp_all
    have bl: "bitLength n = Suc (bitLength (n div 2))"
      using n0 by (subst bitLength.simps) simp
    have blpos: "0 < bitLength (n div 2)"
      using False by (subst bitLength.simps) simp
    then have "(2::nat) ^ bitLength (n div 2) = 2 * 2 ^ (bitLength (n div 2) - 1)"
      by (cases "bitLength (n div 2)") simp_all
    with ih show ?thesis
      unfolding bl by simp linarith
  qed
qed

lemma roundHalfEven_1: "roundHalfEven n (Suc 0) = n"
  by (simp add: roundHalfEven_def)

lemma toDouble_exact:
  assumes "a < 2 ^ 53"
  shows "toDouble sg a (Suc 0) = Num sg (of_nat a)"
proof (cases "a = 0")
  case True
  then show ?thesis by (simp add: toDouble_def)
next
  case False
  then have pos: "0 < a" by simp
  from bitLength_bounds [OF pos]
  have lo: "2 ^ (bitLength a - 1) \<le> a" and hi: "a < 2 ^ bitLength a"
    by simp_all
  have L1: "1 \<le> bitLength a"
    using pos by (subst bitLength.simps) simp
  from lo assms have "(2::nat) ^ (bitLength a - 1) < 2 ^ 53"
    by (rule le_less_trans)
  then have L53: "bitLength a - 1 < 53"
    by (simp only: power_strict_increasing_iff)
  have fl: "floorLog2 a (Suc 0) = int (bitLength a) - 1"
    using L1 lo by (simp add: floorLog2_def bitLength_Suc_0 Let_def nat_diff_distrib)
  define k where "k = 53 - bitLength a"
  have e: "max (floorLog2 a (Suc 0)) (- 1022) - 52 = - int k"
    unfolding fl k_def using L1 L53 by simp
  show ?thesis
  proof (cases "k = 0")
    case True
    with e assms False show ?thesis
      by (simp add: toDouble_def Let_def roundHalfEven_1)
  next
    case False
    with e \<open>a \<noteq> 0\<close> show ?thesis
      by (simp add: toDouble_def Let_def roundHalfEven_1)
  qed
qed

lemmas parse_defs =
  trim_def trimStart_def isWhiteSpace_def whiteSpaceCodes_def
  nonDecimalIntegerLiteral_def strDecimalLiteral_def strUnsignedDecimalLiteral_def
  exponentPart_def isRadixDigit_def digitValue_def radixValue_def Let_def

lemmas double_defs =
  decimalToDouble_def toDouble_def floorLog2_def roundHalfEven_def bitLength_numeral









text \<open>
  Beyond the largest double and under the smallest one. Both conversions that
  read a decimal literal go through \<open>strDecimalLiteral\<close>.
\<close>

lemma strDecimalLiteral_overflow: "strDecimalLiteral ''1e400'' = Some (Infinity Plus, [])"
  by (simp add: parse_defs double_defs cong: let_weak_cong)

lemma strDecimalLiteral_underflow: "strDecimalLiteral ''1e-400'' = Some (Num Plus 0, [])"
  by (simp add: parse_defs double_defs cong: let_weak_cong)



lemma parseFloat_out_of_range:
  "parseFloat ''1e400'' = Infinity Plus"
  "parseFloat ''1e-400'' = Num Plus 0"
  by (simp_all add: parseFloat_def trimStart_def isWhiteSpace_def whiteSpaceCodes_def
      strDecimalLiteral_overflow strDecimalLiteral_underflow)

lemma parseInt_rounds:
  "parseInt ''99999999999999999999'' 10 = Num Plus 100000000000000000000"
  "parseInt ''9007199254740993'' 10 = Num Plus 9007199254740992"
  by (simp_all add: parseInt_def parse_defs double_defs cong: let_weak_cong)


section \<open>The request body for \<^verbatim>\<open>/submit\<close>: what the parses give\<close>

lemma parseFloat_high: "parseFloat ''high'' = NaN"
  by (simp add: parseFloat_def parse_defs)

lemma parseFloat_normal: "parseFloat ''normal'' = NaN"
  by (simp add: parseFloat_def parse_defs)

lemma parseFloat_unknown: "parseFloat ''unknown'' = NaN"
  by (simp add: parseFloat_def parse_defs)

lemma parseFloat_categorical:
  "x \<in> {''high'', ''normal'', ''unknown''} \<Longrightarrow> parseFloat x = NaN"
  using parseFloat_high parseFloat_normal parseFloat_unknown by blast

lemma parseInt_5: "parseInt ''5'' 10 = Num Plus 5"
  by (simp add: parseInt_def parse_defs toDouble_exact)


text \<open>
  C2. When the glucose value and the A1C value are each one of \<^verbatim>\<open>high\<close>,
  \<^verbatim>\<open>normal\<close> and \<^verbatim>\<open>unknown\<close>, the fields \<^verbatim>\<open>glucose_test\<close> and \<^verbatim>\<open>a1c_test\<close> of
  the body are both \<^verbatim>\<open>NaN\<close>, whatever the other three inputs are.
\<close>

theorem categorical_parseFloat_NaN:
  assumes "glucoseValue \<in> {''high'', ''normal'', ''unknown''}"
    and "a1cValue \<in> {''high'', ''normal'', ''unknown''}"
  shows "glucose_test (body selectedAge totalVisits selectedDiagnosesArray glucoseValue a1cValue) = NaN
       \<and> a1c_test (body selectedAge totalVisits selectedDiagnosesArray glucoseValue a1cValue) = NaN"
  using assms by (simp add: body_def parseFloat_categorical)

theorem categorical_parseFloat_NaN_witness:
  "''high'' \<in> {''high'', ''normal'', ''unknown''}
   \<and> ''normal'' \<in> {''high'', ''normal'', ''unknown''}
   \<and> glucose_test (body ''60-70'' ''5'' [''Diabetes''] ''high'' ''normal'') = NaN
   \<and> a1c_test (body ''60-70'' ''5'' [''Diabetes''] ''high'' ''normal'') = NaN"
  using categorical_parseFloat_NaN
    [of "''high''" "''normal''" "''60-70''" "''5''" "[''Diabetes'']"]
  by simp

text \<open>
  C7. For the age \<^verbatim>\<open>60-70\<close>, the visits \<^verbatim>\<open>5\<close> and the diagnoses
  \<^verbatim>\<open>["Diabetes"]\<close>, the body has \<^verbatim>\<open>age\<close> equal to \<^verbatim>\<open>60-70\<close>, \<^verbatim>\<open>total_visits\<close>
  equal to the number 5 and \<^verbatim>\<open>diagnoses\<close> equal to \<^verbatim>\<open>["Diabetes"]\<close>, whatever the
  glucose and A1C values are; and for all inputs \<^verbatim>\<open>age\<close> and \<^verbatim>\<open>diagnoses\<close> are
  the inputs themselves and \<^verbatim>\<open>total_visits\<close> is the parse of the visits in
  base 10.
\<close>

theorem body_rekeys_form_fields:
  "age (body ''60-70'' ''5'' [''Diabetes''] glucoseValue a1cValue) = ''60-70''
   \<and> total_visits (body ''60-70'' ''5'' [''Diabetes''] glucoseValue a1cValue) = Num Plus 5
   \<and> diagnoses (body ''60-70'' ''5'' [''Diabetes''] glucoseValue a1cValue) = [''Diabetes'']
   \<and> age (body selectedAge totalVisits selectedDiagnosesArray glucoseValue a1cValue)
       = selectedAge
   \<and> total_visits (body selectedAge totalVisits selectedDiagnosesArray glucoseValue a1cValue)
       = parseInt totalVisits 10
   \<and> diagnoses (body selectedAge totalVisits selectedDiagnosesArray glucoseValue a1cValue)
       = selectedDiagnosesArray"
  by (simp add: body_def parseInt_5)

section \<open>Predict: the request that is sent, what is shown, and the two ways out\<close>











text \<open>
  C9. When \<^verbatim>\<open>fetch\<close> rejects with an error, and when it resolves but
  \<^verbatim>\<open>response.json()\<close> rejects with an error, the handler ends with that same
  error and the state of the component, \<^verbatim>\<open>result\<close> included, is what it was.
\<close>

theorem predict_errors_propagate:
  "(fetch (predictRequest (features st)) = Inl e \<longrightarrow>
      outcome (Predict_handleSubmit fetch st) = Inl e
      \<and> after (Predict_handleSubmit fetch st) = st)
   \<and> (fetch (predictRequest (features st)) = Inr response \<and> json response = Inl e \<longrightarrow>
      outcome (Predict_handleSubmit fetch st) = Inl e
      \<and> after (Predict_handleSubmit fetch st) = st)"
  by (simp add: Predict_handleSubmit_def Let_def)

theorem predict_errors_propagate_witness:
  "outcome (Predict_handleSubmit (\<lambda>r. Inl Rejected)
      \<lparr> features = ''1,2'', result = JStr ''old'' \<rparr>) = Inl Rejected
   \<and> after (Predict_handleSubmit (\<lambda>r. Inl Rejected)
      \<lparr> features = ''1,2'', result = JStr ''old'' \<rparr>)
      = \<lparr> features = ''1,2'', result = JStr ''old'' \<rparr>
   \<and> outcome (Predict_handleSubmit (\<lambda>r. Inr \<lparr> json = Inl SyntaxError \<rparr>)
      \<lparr> features = ''1,2'', result = JStr ''old'' \<rparr>) = Inl SyntaxError
   \<and> after (Predict_handleSubmit (\<lambda>r. Inr \<lparr> json = Inl SyntaxError \<rparr>)
      \<lparr> features = ''1,2'', result = JStr ''old'' \<rparr>)
      = \<lparr> features = ''1,2'', result = JStr ''old'' \<rparr>"
  using predict_errors_propagate
      [of "\<lambda>r. Inl Rejected" "\<lparr> features = ''1,2'', result = JStr ''old'' \<rparr>" Rejected]
    predict_errors_propagate
      [of "\<lambda>r. Inr \<lparr> json = Inl SyntaxError \<rparr>"
        "\<lparr> features = ''1,2'', result = JStr ''old'' \<rparr>" SyntaxError
        "\<lparr> json = Inl SyntaxError \<rparr>"]
  by simp

end
